theory Spec2Isabelle
  imports Complex_Main
begin

section \<open>Data frames\<close>

text \<open>
  The program of \<^verbatim>\<open>fbref_data_downloader.py\<close> works on pandas data frames. A cell is a
  missing value (pandas' NaN, None and NaT, which \<^verbatim>\<open>dropna\<close> and the comparisons treat
  alike), a number, a string or a time stamp. A number is the rational value of the cell.
  What pandas computes from two numbers depends on how it stores them (in float64 it
  rounds), so the difference of two present numbers is a parameter of the model; that a
  difference with a missing operand is missing is inside the model.

  A frame is its list of column labels and its rows, in order. A row gives a cell for
  every label; the code reads a row only at labels of the frame (pandas raises
  \<^verbatim>\<open>KeyError\<close> otherwise, and so does the model), and every operation that drops a
  column resets the row to \<open>Null\<close> there. The labels of a frame are taken to be distinct,
  as \<^verbatim>\<open>pd.read_csv\<close> makes them; strings are sequences of ASCII characters, as the names
  of the teams and the labels of the columns in both entry points are.
\<close>

datatype cell = Null | Num rat | Str string | Stamp int

type_synonym row = "string \<Rightarrow> cell"

record dataframe =
  columns :: "string list"
  rows :: "row list"

datatype error = KeyError string | ValueError

text \<open>
  The functions of pandas that convert text or compute on numbers are parameters of the
  model:
  \<^item> \<open>to_numeric\<close>: the number \<^verbatim>\<open>pd.to_numeric\<close> reads from a cell, \<open>None\<close> where it
    cannot read one (with \<^verbatim>\<open>errors='coerce'\<close> the cell becomes missing);
  \<^item> \<open>to_datetime\<close>: the time stamp \<^verbatim>\<open>pd.to_datetime\<close> reads from a cell of a column,
    \<open>None\<close> where it cannot read one. The first argument is the whole column: pandas
    infers one format for the column, so what it reads from a cell depends on the other
    cells;
  \<^item> \<open>subtract\<close>: the cell \<^verbatim>\<open>-\<close> gives for two present numbers of two numeric
    columns;
  \<^item> \<open>read_html\<close>: the tables of a response body, \<open>None\<close> where \<^verbatim>\<open>pd.read_html\<close>
    raises (it does when the body holds no table);
  \<^item> \<open>read_csv\<close>: the frame stored in a file, \<open>None\<close> where \<^verbatim>\<open>pd.read_csv\<close> raises;
  \<^item> \<open>to_csv\<close>: the text \<^verbatim>\<open>DataFrame.to_csv\<close> writes.
\<close>

datatype columns_index = Index "string list" | MultiIndex "string list list"

record html_table =
  header :: columns_index
  body :: "cell list list"

record pandas =
  to_numeric :: "cell \<Rightarrow> rat option"
  to_datetime :: "cell list \<Rightarrow> cell \<Rightarrow> int option"
  subtract :: "rat \<Rightarrow> rat \<Rightarrow> cell"
  read_html :: "string \<Rightarrow> html_table list option"
  read_csv :: "string \<Rightarrow> dataframe option"
  to_csv :: "dataframe \<Rightarrow> string"

definition isnull :: "cell \<Rightarrow> bool" where
  "isnull c = (c = Null)"

text \<open>\<^verbatim>\<open>df[cols]\<close>: the frame of the listed columns, in the listed order.\<close>

definition restrict :: "string list \<Rightarrow> row \<Rightarrow> row" where
  "restrict cols r = (\<lambda>c. if c \<in> set cols then r c else Null)"

definition project :: "string list \<Rightarrow> dataframe \<Rightarrow> dataframe" where
  "project cols df = \<lparr>columns = cols, rows = map (restrict cols) (rows df)\<rparr>"

text \<open>
  \<^verbatim>\<open>df[c] = ...\<close>: the column \<open>c\<close> is replaced where it stands, or added at the end;
  \<open>f\<close> computes the new cell of a row from the row.
\<close>

definition set_cell :: "string \<Rightarrow> (row \<Rightarrow> cell) \<Rightarrow> row \<Rightarrow> row" where
  "set_cell c f r = r(c := f r)"

definition assign :: "string \<Rightarrow> (row \<Rightarrow> cell) \<Rightarrow> dataframe \<Rightarrow> dataframe" where
  "assign c f df =
     \<lparr>columns = (if c \<in> set (columns df) then columns df else columns df @ [c]),
      rows = map (set_cell c f) (rows df)\<rparr>"

text \<open>\<^verbatim>\<open>df[c]\<close>: the cells of the column \<open>c\<close>, row by row.\<close>

definition column :: "string \<Rightarrow> dataframe \<Rightarrow> cell list" where
  "column c df = map (\<lambda>r. r c) (rows df)"

text \<open>\<^verbatim>\<open>df.dropna(subset=[c])\<close>: the rows whose cell at \<open>c\<close> is not missing.\<close>

definition dropna :: "string \<Rightarrow> dataframe \<Rightarrow> dataframe" where
  "dropna c df = df\<lparr>rows := filter (\<lambda>r. \<not> isnull (r c)) (rows df)\<rparr>"

text \<open>
  \<^verbatim>\<open>pd.concat(dfs, ignore_index=True)\<close>: the columns are the union of the frames' columns
  in the order of their first appearance, the rows are the frames' rows in order, missing
  where a frame has no such column. An empty list raises \<^verbatim>\<open>ValueError\<close>.
\<close>

fun union_columns :: "string list \<Rightarrow> string list \<Rightarrow> string list" where
  "union_columns acc [] = acc"
| "union_columns acc (c # cs) =
     (if c \<in> set acc then union_columns acc cs else union_columns (acc @ [c]) cs)"

definition padded_rows :: "dataframe \<Rightarrow> row list" where
  "padded_rows df = map (restrict (columns df)) (rows df)"

definition concat_frames :: "dataframe list \<Rightarrow> error + dataframe" where
  "concat_frames dfs =
     (if dfs = [] then Inl ValueError
      else Inr \<lparr>columns = foldl union_columns [] (map columns dfs),
                rows = concat (map padded_rows dfs)\<rparr>)"

section \<open>The cleaner\<close>

text \<open>
  \<^verbatim>\<open>pd.to_numeric(col, errors='coerce')\<close> and \<^verbatim>\<open>pd.to_datetime(col, errors='coerce')\<close>:
  the cell of the converted column, the second for a cell of the column \<open>col\<close>.
\<close>

definition to_numeric_coerce :: "pandas \<Rightarrow> cell \<Rightarrow> cell" where
  "to_numeric_coerce pd c = (case to_numeric pd c of Some q \<Rightarrow> Num q | None \<Rightarrow> Null)"

definition to_datetime_coerce :: "pandas \<Rightarrow> cell list \<Rightarrow> cell \<Rightarrow> cell" where
  "to_datetime_coerce pd col c =
     (case to_datetime pd col c of Some t \<Rightarrow> Stamp t | None \<Rightarrow> Null)"

text \<open>
  Arithmetic and comparison of two cells of numeric columns: a difference with a missing
  operand is missing, the difference of two numbers is the library's; a comparison with a
  missing operand is false (also \<open>==\<close>).
\<close>

fun sub_cell :: "pandas \<Rightarrow> cell \<Rightarrow> cell \<Rightarrow> cell" where
  "sub_cell pd (Num a) (Num b) = subtract pd a b"
| "sub_cell pd _ _ = Null"

fun gt_cell :: "cell \<Rightarrow> cell \<Rightarrow> bool" where
  "gt_cell (Num a) (Num b) = (a > b)"
| "gt_cell _ _ = False"

fun eq_cell :: "cell \<Rightarrow> cell \<Rightarrow> bool" where
  "eq_cell (Num a) (Num b) = (a = b)"
| "eq_cell _ _ = False"

definition lt_cell :: "cell \<Rightarrow> cell \<Rightarrow> bool" where
  "lt_cell a b = gt_cell b a"

definition useful_cols :: "string list" where
  "useful_cols = [''Date'', ''Comp'', ''Venue'', ''Result'', ''GF'', ''GA'', ''xG'', ''xGA'',
     ''Poss'', ''Opponent'', ''Team'', ''Season'']"

definition numeric_cols :: "string list" where
  "numeric_cols = [''GF'', ''GA'', ''xG'', ''xGA'', ''Poss'']"

text \<open>The loop over the five numeric columns; \<^verbatim>\<open>df[col]\<close> raises where the column is absent.\<close>

fun coerce_numeric :: "pandas \<Rightarrow> string list \<Rightarrow> dataframe \<Rightarrow> error + dataframe" where
  "coerce_numeric pd [] df = Inr df"
| "coerce_numeric pd (col # cols) df =
     (if col \<in> set (columns df)
      then coerce_numeric pd cols (assign col (\<lambda>r. to_numeric_coerce pd (r col)) df)
      else Inl (KeyError col))"

text \<open>The \<^verbatim>\<open>lambda\<close> of line 95.\<close>

definition outcome :: "row \<Rightarrow> cell" where
  "outcome r =
     (if gt_cell (r ''GF'') (r ''GA'') then Str ''Win''
      else if eq_cell (r ''GF'') (r ''GA'') then Str ''Draw''
      else Str ''Loss'')"

text \<open>
  \<^verbatim>\<open>clean_matchlog\<close>: the projection, the conversion of the numeric columns, the three
  derived columns, the conversion of the column of the dates and the removal of the rows
  without a date. \<^verbatim>\<open>df.apply(..., axis=1)\<close> computes the outcome row by row.
\<close>

definition clean_matchlog :: "pandas \<Rightarrow> dataframe \<Rightarrow> error + dataframe" where
  "clean_matchlog pd df0 =
     (let df = project [c \<leftarrow> useful_cols. c \<in> set (columns df0)] df0 in
      case coerce_numeric pd numeric_cols df of
        Inl e \<Rightarrow> Inl e
      | Inr df \<Rightarrow>
          let df = assign ''GoalDiff'' (\<lambda>r. sub_cell pd (r ''GF'') (r ''GA'')) df;
              df = assign ''xGDiff'' (\<lambda>r. sub_cell pd (r ''xG'') (r ''xGA'')) df;
              df = assign ''Outcome'' outcome df
          in if ''Date'' \<notin> set (columns df) then Inl (KeyError ''Date'')
             else Inr (dropna ''Date''
                    (assign ''Date''
                      (\<lambda>r. to_datetime_coerce pd (column ''Date'' df) (r ''Date'')) df)))"

text \<open>
  What the cleaner does to one row, for the proofs: the cells of the numeric columns are
  converted one after the other, then the derived cells are set in the order of the code,
  and last the date is converted as a cell of the column \<open>dates\<close>.
\<close>

fun coerce_row :: "pandas \<Rightarrow> string list \<Rightarrow> row \<Rightarrow> row" where
  "coerce_row pd [] r = r"
| "coerce_row pd (c # cs) r = coerce_row pd cs (set_cell c (\<lambda>r. to_numeric_coerce pd (r c)) r)"

definition derive_row :: "pandas \<Rightarrow> row \<Rightarrow> row" where
  "derive_row pd r =
     set_cell ''Outcome'' outcome
       (set_cell ''xGDiff'' (\<lambda>r. sub_cell pd (r ''xG'') (r ''xGA''))
         (set_cell ''GoalDiff'' (\<lambda>r. sub_cell pd (r ''GF'') (r ''GA''))
           (coerce_row pd numeric_cols r)))"

definition cleaned_row :: "pandas \<Rightarrow> string list \<Rightarrow> cell list \<Rightarrow> row \<Rightarrow> row" where
  "cleaned_row pd cols dates r =
     set_cell ''Date'' (\<lambda>r. to_datetime_coerce pd dates (r ''Date''))
       (derive_row pd (restrict [c \<leftarrow> useful_cols. c \<in> set cols] r))"

text \<open>The columns the cleaner keeps and does not convert.\<close>

definition text_cols :: "string list" where
  "text_cols = [''Comp'', ''Venue'', ''Result'', ''Opponent'', ''Team'', ''Season'']"

section \<open>The downloader\<close>

text \<open>
  What the program does to the outside is recorded in a \<open>world\<close>: the files on disk (a map
  from path to content) and the trace of the requests sent and the waits made, oldest
  first. The remote site is a parameter: its answer to a request depends on the URL and on
  the trace so far, and is either a response or an exception raised by \<^verbatim>\<open>requests.get\<close>.
  A wait is a fixed number of seconds or a draw of \<^verbatim>\<open>random.uniform\<close> from a range.
\<close>

datatype duration = Seconds nat | Uniform nat nat

datatype event = Get string | Sleep duration

record response =
  status_code :: nat
  content :: string

datatype reply = Raises | Reply response

type_synonym remote = "event list \<Rightarrow> string \<Rightarrow> reply"

record world =
  files :: "string \<rightharpoonup> string"
  trace :: "event list"

text \<open>
  The object \<^verbatim>\<open>FBRefDownloader\<close>. Its header is the same on every request and is left
  out of the trace; the bounds of the delay are natural numbers, as in both entry points.
\<close>

record downloader =
  delay_range :: "nat \<times> nat"

text \<open>The events \<open>es\<close> happen, in this order.\<close>

definition emit :: "event list \<Rightarrow> world \<Rightarrow> world" where
  "emit es w = w\<lparr>trace := trace w @ es\<rparr>"

text \<open>
  \<^verbatim>\<open>safe_get\<close>. The retry after a 429 is a recursive call inside the \<^verbatim>\<open>try\<close> block, so
  every retry takes a frame of the interpreter's call stack. The argument \<open>depth\<close> is the
  number of nested calls for which the stack has room below the call. A retry that finds
  no room raises \<^verbatim>\<open>RecursionError\<close>; \<^verbatim>\<open>except Exception\<close> catches it, and the call
  waits 10 seconds and returns nothing, as do all the calls above it. The trace holds the
  requests that were answered (by a response or by an exception of the network); whether
  the attempt that ran out of stack sent anything is not recorded.
\<close>

fun safe_get ::
  "downloader \<Rightarrow> remote \<Rightarrow> string \<Rightarrow> nat \<Rightarrow> world \<Rightarrow> response option \<times> world" where
  "safe_get self remote url depth w =
     (case remote (trace w) url of
        Raises \<Rightarrow> (None, emit [Get url, Sleep (Seconds 10)] w)
      | Reply resp \<Rightarrow>
          if status_code resp = 429
          then (if depth = 0
                then (None, emit [Get url, Sleep (Seconds 60), Sleep (Seconds 10)] w)
                else safe_get self remote url (depth - 1)
                       (emit [Get url, Sleep (Seconds 60)] w))
          else if status_code resp \<noteq> 200
          then (None, emit [Get url] w)
          else (Some resp,
                 emit [Get url, Sleep (Uniform (fst (delay_range self)) (snd (delay_range self)))] w))"

declare safe_get.simps [simp del]

text \<open>The path of a team's cache file and the URL of a season's page.\<close>

definition lower_char :: "char \<Rightarrow> char" where
  "lower_char c =
     (case map_of (zip ''ABCDEFGHIJKLMNOPQRSTUVWXYZ'' ''abcdefghijklmnopqrstuvwxyz'') c of
        Some l \<Rightarrow> l
      | None \<Rightarrow> c)"

definition file_path :: "string \<Rightarrow> string" where
  "file_path team_name =
     ''data/'' @ map (\<lambda>c. if c = CHR '' '' then CHR ''-'' else c) (map lower_char team_name)
       @ ''_matchlogs.csv''"

definition season_url :: "string \<Rightarrow> string \<Rightarrow> string \<Rightarrow> string" where
  "season_url team_id season team_name =
     ''https://fbref.com/en/squads/'' @ team_id @ ''/'' @ season
       @ ''/matchlogs/all_comps/schedule/'' @ team_name
       @ ''-Scores-and-Fixtures-All-Competitions''"

text \<open>
  The first table of a page as a frame: the labels of a hierarchical header are joined
  with an underscore and stripped of surrounding white space.
\<close>

definition isspace :: "char \<Rightarrow> bool" where
  "isspace c = (c \<in> set [CHR 0x09, CHR 0x0A, CHR 0x0B, CHR 0x0C, CHR 0x0D,
     CHR 0x1C, CHR 0x1D, CHR 0x1E, CHR 0x1F, CHR '' ''])"

definition strip :: "string \<Rightarrow> string" where
  "strip s = rev (dropWhile isspace (rev (dropWhile isspace s)))"

fun join :: "string \<Rightarrow> string list \<Rightarrow> string" where
  "join sep [] = []"
| "join sep [s] = s"
| "join sep (s # t # ss) = s @ sep @ join sep (t # ss)"

definition flatten_columns :: "columns_index \<Rightarrow> string list" where
  "flatten_columns idx =
     (case idx of
        Index names \<Rightarrow> names
      | MultiIndex cols \<Rightarrow> map (\<lambda>col. strip (join ''_'' col)) cols)"

definition row_of :: "string list \<Rightarrow> cell list \<Rightarrow> row" where
  "row_of names cells = (\<lambda>c. case map_of (zip names cells) c of Some v \<Rightarrow> v | None \<Rightarrow> Null)"

definition frame_of :: "html_table \<Rightarrow> dataframe" where
  "frame_of t =
     (let names = flatten_columns (header t)
      in \<lparr>columns = names, rows = map (row_of names) (body t)\<rparr>)"

definition tag :: "string \<Rightarrow> string \<Rightarrow> dataframe \<Rightarrow> dataframe" where
  "tag season team_name df =
     assign ''Team'' (\<lambda>r. Str team_name) (assign ''Season'' (\<lambda>r. Str season) df)"

text \<open>
  The loop over the seasons of \<^verbatim>\<open>download_matchlogs\<close>: a season whose request fails,
  whose page does not parse or holds no table is skipped.
\<close>

fun fetch_seasons ::
  "downloader \<Rightarrow> pandas \<Rightarrow> remote \<Rightarrow> nat \<Rightarrow> string \<Rightarrow> string \<Rightarrow> string list
     \<Rightarrow> dataframe list \<Rightarrow> world \<Rightarrow> dataframe list \<times> world" where
  "fetch_seasons self pd remote depth team_name team_id [] all_logs w = (all_logs, w)"
| "fetch_seasons self pd remote depth team_name team_id (season # seasons) all_logs w =
     (case safe_get self remote (season_url team_id season team_name) depth w of
        (None, w') \<Rightarrow>
          fetch_seasons self pd remote depth team_name team_id seasons all_logs w'
      | (Some resp, w') \<Rightarrow>
          (case read_html pd (content resp) of
             None \<Rightarrow>
               fetch_seasons self pd remote depth team_name team_id seasons all_logs w'
           | Some [] \<Rightarrow>
               fetch_seasons self pd remote depth team_name team_id seasons all_logs w'
           | Some (t # ts) \<Rightarrow>
               fetch_seasons self pd remote depth team_name team_id seasons
                 (all_logs @ [tag season team_name (frame_of t)]) w'))"

text \<open>
  \<^verbatim>\<open>download_matchlogs\<close>: the cached frame if the cache file exists (nothing if it cannot
  be read), else the frames of the seasons, concatenated and written to the cache file.
\<close>

definition download_matchlogs ::
  "downloader \<Rightarrow> pandas \<Rightarrow> remote \<Rightarrow> nat \<Rightarrow> string \<Rightarrow> string \<Rightarrow> string list \<Rightarrow> world
     \<Rightarrow> (error + dataframe option) \<times> world" where
  "download_matchlogs self pd remote depth team_name team_id seasons w =
     (case files w (file_path team_name) of
        Some cached \<Rightarrow> (Inr (read_csv pd cached), w)
      | None \<Rightarrow>
          (case fetch_seasons self pd remote depth team_name team_id seasons [] w of
             (all_logs, w') \<Rightarrow>
               if all_logs \<noteq> []
               then (case concat_frames all_logs of
                       Inl e \<Rightarrow> (Inl e, w')
                     | Inr combined \<Rightarrow>
                         (Inr (Some combined),
                           w'\<lparr>files := (files w')(file_path team_name \<mapsto> to_csv pd combined)\<rparr>))
               else (Inr None, w')))"

section \<open>The merger\<close>

text \<open>
  \<^verbatim>\<open>merge_teams\<close>: the frames are concatenated and the result is written to the file of
  the training data. Where \<^verbatim>\<open>pd.concat\<close> raises, nothing is written.
\<close>

definition merge_teams :: "pandas \<Rightarrow> dataframe list \<Rightarrow> world \<Rightarrow> error + (dataframe \<times> world)" where
  "merge_teams pd dfs w =
     (case concat_frames dfs of
        Inl e \<Rightarrow> Inl e
      | Inr combined \<Rightarrow>
          Inr (combined,
            w\<lparr>files := (files w)(''data/all_teams_training_data.csv'' \<mapsto> to_csv pd combined)\<rparr>))"

section \<open>Notions for the properties\<close>


text \<open>
  For the properties of the merger: the position of the first row of the \<open>i\<close>-th frame in
  the merged frame, and a frame that carries the tags of a team and of a list of seasons,
  that is, has the columns \<^verbatim>\<open>Team\<close> and \<^verbatim>\<open>Season\<close>, and in every row the name of the
  team and one of the seasons.
\<close>

definition offset :: "dataframe list \<Rightarrow> nat \<Rightarrow> nat" where
  "offset dfs i = sum_list (map (\<lambda>d. length (rows d)) (take i dfs))"


text \<open>
  An answer of the remote site that gives no table: an exception, a status that is
  neither 200 nor 429, or a page that does not parse or holds no table.
\<close>

definition no_table :: "pandas \<Rightarrow> reply \<Rightarrow> bool" where
  "no_table pd rep =
     (case rep of
        Raises \<Rightarrow> True
      | Reply resp \<Rightarrow>
          status_code resp \<noteq> 429 \<and>
          (status_code resp = 200 \<longrightarrow>
             (case read_html pd (content resp) of None \<Rightarrow> True | Some ts \<Rightarrow> ts = [])))"

section \<open>Sample data\<close>

text \<open>
  A small instance of the library and three rows of a match log, on which the theorems
  below are exercised: a drawn match, a match whose date does not parse, and a fixture not
  yet played, whose score cells are empty.
\<close>

definition sample_columns :: "string list" where
  "sample_columns = [''Date'', ''Comp'', ''Venue'', ''Result'', ''GF'', ''GA'', ''Opponent'',
     ''xG'', ''xGA'', ''Poss'', ''Season'', ''Team'']"

definition drawn_match :: row where
  "drawn_match = row_of sample_columns
     [Str ''2024-08-17'', Str ''La Liga'', Str ''Home'', Str ''D'', Str ''2'', Str ''2'',
      Str ''Getafe'', Str ''1.5'', Str ''0.5'', Str ''55'', Str ''2024-2025'',
      Str ''Athletic-Club-Bilbao'']"

definition undated_match :: row where
  "undated_match = row_of sample_columns
     [Str '''', Str ''La Liga'', Str ''Away'', Str ''W'', Str ''3'', Str ''1'',
      Str ''Osasuna'', Str ''1.5'', Str ''0.5'', Str ''55'', Str ''2024-2025'',
      Str ''Athletic-Club-Bilbao'']"

definition unplayed_match :: row where
  "unplayed_match = row_of sample_columns
     [Str ''2024-08-24'', Str ''La Liga'', Str ''Away'', Null, Null, Null,
      Str ''Sevilla'', Null, Null, Null, Str ''2024-2025'',
      Str ''Athletic-Club-Bilbao'']"

definition sample_raw :: dataframe where
  "sample_raw = \<lparr>columns = sample_columns, rows = [drawn_match, undated_match, unplayed_match]\<rparr>"

text \<open>
  A match whose date is written month first, and a frame whose column of dates starts in
  the ISO format and goes on with that date.
\<close>

definition us_dated_match :: row where
  "us_dated_match = row_of sample_columns
     [Str ''08/24/2024'', Str ''La Liga'', Str ''Away'', Str ''W'', Str ''3'', Str ''1'',
      Str ''Sevilla'', Str ''1.5'', Str ''0.5'', Str ''55'', Str ''2024-2025'',
      Str ''Athletic-Club-Bilbao'']"

definition mixed_dates :: dataframe where
  "mixed_dates = \<lparr>columns = sample_columns, rows = [drawn_match, us_dated_match]\<rparr>"

text \<open>
  The page of a season as \<^verbatim>\<open>pd.read_html\<close> reads it, the text of a cache file written by
  the program, and the text of a cache file of another origin, whose frame has no column
  for the team or the season.
\<close>

definition sample_table :: html_table where
  "sample_table =
     \<lparr>header = Index [''Date'', ''GF'', ''GA'', ''Opponent'', ''xG'', ''xGA'', ''Poss''],
      body = [[Str ''2024-08-17'', Num 2, Num 2, Str ''Getafe'', Str ''1.5'', Str ''0.5'', Num 55],
              [Str ''2024-08-24'', Null, Null, Str ''Sevilla'', Null, Null, Null]]\<rparr>"

definition sample_csv :: string where
  "sample_csv = ''Date,Comp,Venue,Result,GF,GA,Opponent,xG,xGA,Poss,Season,Team''"

definition untagged_csv :: string where
  "untagged_csv = ''Date,GF,GA,Opponent,xG,xGA,Poss''"

text \<open>
  The dates the sample library reads, in the ISO format and month first. As pandas does, it
  takes the format of a column from the first text of the column and reads every cell in
  that format; where the first text has neither format, it reads cell by cell.
\<close>

definition iso_dates :: "(string \<times> int) list" where
  "iso_dates = [(''2024-08-17'', 19952), (''2024-08-24'', 19959)]"

definition us_dates :: "(string \<times> int) list" where
  "us_dates = [(''08/17/2024'', 19952), (''08/24/2024'', 19959)]"

fun first_text :: "cell list \<Rightarrow> string option" where
  "first_text [] = None"
| "first_text (Str s # cs) = Some s"
| "first_text (c # cs) = first_text cs"

definition sample_to_datetime :: "cell list \<Rightarrow> cell \<Rightarrow> int option" where
  "sample_to_datetime col c =
     (case c of
        Str s \<Rightarrow>
          (case first_text col of
             None \<Rightarrow> None
           | Some f \<Rightarrow>
               if map_of iso_dates f \<noteq> None then map_of iso_dates s
               else if map_of us_dates f \<noteq> None then map_of us_dates s
               else (case map_of iso_dates s of Some t \<Rightarrow> Some t | None \<Rightarrow> map_of us_dates s))
      | _ \<Rightarrow> None)"

definition sample_pandas :: pandas where
  "sample_pandas =
     \<lparr>to_numeric = (\<lambda>c. case c of
          Num q \<Rightarrow> Some q
        | Str s \<Rightarrow> map_of [(''0'', 0), (''1'', 1), (''2'', 2), (''3'', 3), (''1.5'', 3 / 2),
                     (''0.5'', 1 / 2), (''55'', 55)] s
        | _ \<Rightarrow> None),
      to_datetime = sample_to_datetime,
      subtract = (\<lambda>a b. Num (a - b)),
      read_html = (\<lambda>page. if page = ''<table>'' then Some [sample_table] else None),
      read_csv = (\<lambda>text. if text = sample_csv then Some sample_raw
                        else if text = untagged_csv then Some (frame_of sample_table)
                        else None),
      to_csv = (\<lambda>df. join '','' (columns df))\<rparr>"

text \<open>A frame of one row without the columns of the score.\<close>

definition no_goals_frame :: dataframe where
  "no_goals_frame =
     \<lparr>columns = [''Date'', ''Comp'', ''Opponent'', ''Season'', ''Team''],
      rows = [row_of [''Date'', ''Comp'', ''Opponent'', ''Season'', ''Team'']
        [Str ''2024-08-17'', Str ''La Liga'', Str ''Getafe'', Str ''2024-2025'',
         Str ''Athletic-Club-Bilbao'']]\<rparr>"

text \<open>
  The downloader of the main entry point, a world with no file and no event, and four
  remote sites: one that is rate-limited until it has seen a request for the URL, one that
  is rate-limited for ever, one that knows no page, and one that cannot be reached.
\<close>

definition main_downloader :: downloader where
  "main_downloader = \<lparr>delay_range = (2, 6)\<rparr>"

definition empty_world :: world where
  "empty_world = \<lparr>files = Map.empty, trace = []\<rparr>"

definition busy_once :: remote where
  "busy_once = (\<lambda>h u. if Get u \<in> set h then Reply \<lparr>status_code = 200, content = ''<table>''\<rparr>
                         else Reply \<lparr>status_code = 429, content = ''busy''\<rparr>)"


definition not_found :: remote where
  "not_found = (\<lambda>h u. Reply \<lparr>status_code = 404, content = ''not found''\<rparr>)"

definition unreachable :: remote where
  "unreachable = (\<lambda>h u. Raises)"

text \<open>
  A world in which the cache file of Qarabag-FK exists, and one in which it holds the frame
  without tags.
\<close>

definition cached_world :: world where
  "cached_world = \<lparr>files = [''data/qarabag-fk_matchlogs.csv'' \<mapsto> sample_csv], trace = []\<rparr>"



section \<open>Properties of the cleaner\<close>

lemma columns_assign: "set (columns (assign c f df)) = insert c (set (columns df))"
  by (auto simp: assign_def)

lemma rows_assign: "rows (assign c f df) = map (set_cell c f) (rows df)"
  by (simp add: assign_def)

lemma coerce_numeric_Inr:
  "coerce_numeric pd cols df = Inr df' \<Longrightarrow>
     set cols \<subseteq> set (columns df) \<and> set (columns df') = set (columns df) \<and>
     rows df' = map (coerce_row pd cols) (rows df)"
proof (induction cols arbitrary: df)
  case Nil
  then show ?case by simp
next
  case (Cons c cs)
  from Cons.prems have c: "c \<in> set (columns df)"
    by (simp split: if_splits)
  with Cons.prems have
    "coerce_numeric pd cs (assign c (\<lambda>r. to_numeric_coerce pd (r c)) df) = Inr df'"
    by simp
  from Cons.IH[OF this] c show ?case
    by (auto simp: columns_assign rows_assign comp_def)
qed

text \<open>The cells of a row after the conversion of the numeric columns and the derivations.\<close>

lemma coerce_row_other: "c \<notin> set cols \<Longrightarrow> coerce_row pd cols r c = r c"
  by (induction cols arbitrary: r) (auto simp: set_cell_def)

lemma coerce_row_in:
  "c \<in> set cols \<Longrightarrow> distinct cols \<Longrightarrow> coerce_row pd cols r c = to_numeric_coerce pd (r c)"
  by (induction cols arbitrary: r) (auto simp: set_cell_def coerce_row_other)

lemma derived_not_useful:
  "''GoalDiff'' \<notin> set useful_cols" "''xGDiff'' \<notin> set useful_cols"
  "''Outcome'' \<notin> set useful_cols"
  by (simp_all add: useful_cols_def)

lemma numeric_useful: "set numeric_cols \<subseteq> set useful_cols"
  by (simp add: numeric_cols_def useful_cols_def)

lemma restrict_useful:
  "c \<in> set useful_cols \<Longrightarrow> c \<in> set cols \<Longrightarrow>
   restrict [c \<leftarrow> useful_cols. c \<in> set cols] r c = r c"
  by (simp add: restrict_def)

lemma derive_row_useful:
  assumes "c \<in> set useful_cols"
  shows "derive_row pd r c = coerce_row pd numeric_cols r c"
proof -
  from assms derived_not_useful have "c \<noteq> ''GoalDiff''" "c \<noteq> ''xGDiff''" "c \<noteq> ''Outcome''"
    by blast+
  then show ?thesis
    by (simp add: derive_row_def set_cell_def)
qed

lemma derive_row_Date: "derive_row pd r ''Date'' = r ''Date''"
proof -
  have u: "''Date'' \<in> set useful_cols" by (simp add: useful_cols_def)
  have n: "''Date'' \<notin> set numeric_cols" by (simp add: numeric_cols_def)
  show ?thesis
    by (simp add: derive_row_useful[OF u] coerce_row_other[OF n])
qed

text \<open>
  A run of the cleaner that returns a frame has found the five numeric columns and the
  date column, and its rows are the cleaned rows with a date, in order.
\<close>

lemma clean_matchlog_Inr:
  assumes "clean_matchlog pd df = Inr out"
  shows "set numeric_cols \<subseteq> set (columns df)"
    and "''Date'' \<in> set (columns df)"
    and "rows out = filter (\<lambda>r. \<not> isnull (r ''Date''))
           (map (cleaned_row pd (columns df) (column ''Date'' df)) (rows df))"
proof -
  let ?cols = "[c \<leftarrow> useful_cols. c \<in> set (columns df)]"
  let ?p = "project ?cols df"
  from assms obtain d where d: "coerce_numeric pd numeric_cols ?p = Inr d"
    by (auto simp: clean_matchlog_def Let_def split: sum.splits)
  note cn = coerce_numeric_Inr[OF d]
  have pc: "set (columns ?p) \<subseteq> set (columns df)"
    by (auto simp: project_def)
  from cn pc show "set numeric_cols \<subseteq> set (columns df)" by auto
  let ?d3 = "assign ''Outcome'' outcome
              (assign ''xGDiff'' (\<lambda>r. sub_cell pd (r ''xG'') (r ''xGA''))
                (assign ''GoalDiff'' (\<lambda>r. sub_cell pd (r ''GF'') (r ''GA'')) d))"
  from assms d have dt: "''Date'' \<in> set (columns ?d3)"
    by (auto simp: clean_matchlog_def Let_def split: if_splits)
  then have "''Date'' \<in> set (columns d)"
    by (simp add: columns_assign)
  with cn pc show dc: "''Date'' \<in> set (columns df)" by auto
  have r3: "rows ?d3 = map (\<lambda>r. derive_row pd (restrict ?cols r)) (rows df)"
    using cn by (simp add: rows_assign project_def derive_row_def comp_def)
  have u: "''Date'' \<in> set useful_cols" by (simp add: useful_cols_def)
  have c3: "column ''Date'' ?d3 = column ''Date'' df"
    by (simp add: column_def r3 comp_def derive_row_Date restrict_useful[OF u dc])
  from assms d dt have
    "out = dropna ''Date''
       (assign ''Date'' (\<lambda>r. to_datetime_coerce pd (column ''Date'' ?d3) (r ''Date'')) ?d3)"
    by (simp add: clean_matchlog_def Let_def)
  then have "rows out = filter (\<lambda>r. \<not> isnull (r ''Date''))
      (map (set_cell ''Date'' (\<lambda>r. to_datetime_coerce pd (column ''Date'' df) (r ''Date'')))
        (rows ?d3))"
    by (simp add: dropna_def rows_assign c3)
  then show "rows out = filter (\<lambda>r. \<not> isnull (r ''Date''))
      (map (cleaned_row pd (columns df) (column ''Date'' df)) (rows df))"
    by (simp add: r3 cleaned_row_def[abs_def] comp_def)
qed

text \<open>The cells of a cleaned row, column by column.\<close>

lemma cleaned_row_GoalDiff:
  "cleaned_row pd cols dates r ''GoalDiff'' =
     sub_cell pd (cleaned_row pd cols dates r ''GF'') (cleaned_row pd cols dates r ''GA'')"
  by (simp add: cleaned_row_def derive_row_def set_cell_def)

lemma cleaned_row_xGDiff:
  "cleaned_row pd cols dates r ''xGDiff'' =
     sub_cell pd (cleaned_row pd cols dates r ''xG'') (cleaned_row pd cols dates r ''xGA'')"
  by (simp add: cleaned_row_def derive_row_def set_cell_def)

lemma cleaned_row_Outcome:
  "cleaned_row pd cols dates r ''Outcome'' = outcome (cleaned_row pd cols dates r)"
  by (simp add: cleaned_row_def derive_row_def set_cell_def outcome_def)

lemma cleaned_row_Date:
  assumes "''Date'' \<in> set cols"
  shows "cleaned_row pd cols dates r ''Date'' = to_datetime_coerce pd dates (r ''Date'')"
proof -
  have u: "''Date'' \<in> set useful_cols" by (simp add: useful_cols_def)
  show ?thesis
    by (simp add: cleaned_row_def set_cell_def derive_row_Date restrict_useful[OF u assms])
qed

lemma cleaned_row_numeric:
  assumes "c \<in> set numeric_cols" and "c \<in> set cols"
  shows "cleaned_row pd cols dates r c = to_numeric_coerce pd (r c)"
proof -
  have "''Date'' \<notin> set numeric_cols" by (simp add: numeric_cols_def)
  with assms have d: "c \<noteq> ''Date''" by blast
  from assms numeric_useful have u: "c \<in> set useful_cols" by blast
  have dist: "distinct numeric_cols" by (simp add: numeric_cols_def)
  from d show ?thesis
    by (simp add: cleaned_row_def set_cell_def derive_row_useful[OF u]
        coerce_row_in[OF assms(1) dist] restrict_useful[OF u assms(2)])
qed

lemma cleaned_row_text:
  assumes "c \<in> set text_cols" and "c \<in> set cols"
  shows "cleaned_row pd cols dates r c = r c"
proof -
  have "''Date'' \<notin> set text_cols" by (simp add: text_cols_def)
  with assms have d: "c \<noteq> ''Date''" by blast
  have "set text_cols \<subseteq> set useful_cols" by (simp add: text_cols_def useful_cols_def)
  with assms have u: "c \<in> set useful_cols" by blast
  have "set text_cols \<inter> set numeric_cols = {}" by (simp add: text_cols_def numeric_cols_def)
  with assms have n: "c \<notin> set numeric_cols" by blast
  from d show ?thesis
    by (simp add: cleaned_row_def set_cell_def derive_row_useful[OF u] coerce_row_other[OF n]
        restrict_useful[OF u assms(2)])
qed

lemma date_kept_iff:
  "''Date'' \<in> set cols \<Longrightarrow>
   (\<not> isnull (cleaned_row pd cols dates r ''Date'')) = (to_datetime pd dates (r ''Date'') \<noteq> None)"
  by (simp add: cleaned_row_Date isnull_def to_datetime_coerce_def split: option.splits)

lemma clean_matchlog_rows:
  assumes "clean_matchlog pd df = Inr out"
  shows "rows out = map (cleaned_row pd (columns df) (column ''Date'' df))
           [r \<leftarrow> rows df. to_datetime pd (column ''Date'' df) (r ''Date'') \<noteq> None]"
  using clean_matchlog_Inr(2,3)[OF assms]
  by (simp add: filter_map comp_def date_kept_iff)

text \<open>
  The derived cells of a cleaned row are the library's differences of the row's cells,
  missing where an operand is missing.
\<close>

lemma derived_cells:
  assumes "clean_matchlog pd df = Inr out" and "r \<in> set (rows out)"
  shows "r ''GoalDiff'' = sub_cell pd (r ''GF'') (r ''GA'') \<and>
         r ''xGDiff'' = sub_cell pd (r ''xG'') (r ''xGA'')"
proof -
  from assms obtain r0 where "r = cleaned_row pd (columns df) (column ''Date'' df) r0"
    by (auto simp: clean_matchlog_rows)
  then show ?thesis
    using cleaned_row_GoalDiff cleaned_row_xGDiff by simp
qed

lemma sample_clean_Inr: "\<exists>out. clean_matchlog sample_pandas sample_raw = Inr out"
  by (simp add: clean_matchlog_def sample_raw_def sample_columns_def useful_cols_def
      numeric_cols_def project_def assign_def Let_def)

lemma sample_dates:
  "column ''Date'' sample_raw = [Str ''2024-08-17'', Str '''', Str ''2024-08-24'']"
  by (simp add: column_def sample_raw_def drawn_match_def undated_match_def
      unplayed_match_def row_of_def sample_columns_def)

lemma sample_kept:
  "[r \<leftarrow> rows sample_raw. to_datetime sample_pandas (column ''Date'' sample_raw) (r ''Date'') \<noteq> None]
     = [drawn_match, unplayed_match]"
  unfolding sample_dates
  by (simp add: sample_raw_def sample_pandas_def sample_to_datetime_def iso_dates_def
      us_dates_def drawn_match_def undated_match_def unplayed_match_def row_of_def
      sample_columns_def)

lemma sample_dropped:
  "[r \<leftarrow> rows sample_raw. to_datetime sample_pandas (column ''Date'' sample_raw) (r ''Date'') = None]
     = [undated_match]"
  unfolding sample_dates
  by (simp add: sample_raw_def sample_pandas_def sample_to_datetime_def iso_dates_def
      us_dates_def drawn_match_def undated_match_def unplayed_match_def row_of_def
      sample_columns_def)

lemma sample_rows:
  assumes "clean_matchlog sample_pandas sample_raw = Inr out"
  shows "rows out =
    [cleaned_row sample_pandas sample_columns (column ''Date'' sample_raw) drawn_match,
     cleaned_row sample_pandas sample_columns (column ''Date'' sample_raw) unplayed_match]"
  using clean_matchlog_rows[OF assms] unfolding sample_kept
  by (simp add: sample_raw_def)

text \<open>
  Claim C5. The claim says that the cleaner drops exactly the rows whose date does not
  parse. The code converts the column of the dates in one call, and the library reads every
  cell in the format it infers for the column: the rows of a returned frame are the cleaned
  rows of exactly the input rows whose date is read as a cell of that column, in the order
  of the input, and their number is the number of input rows less the number of rows whose
  date is not read so. No other step removes a row.
\<close>

theorem date_filter:
  assumes "clean_matchlog pd df = Inr out"
  shows "rows out = map (cleaned_row pd (columns df) (column ''Date'' df))
           [r \<leftarrow> rows df. to_datetime pd (column ''Date'' df) (r ''Date'') \<noteq> None] \<and>
         length (rows out) =
           length (rows df) -
           length [r \<leftarrow> rows df. to_datetime pd (column ''Date'' df) (r ''Date'') = None]"
proof -
  have "length [r \<leftarrow> rows df. to_datetime pd (column ''Date'' df) (r ''Date'') \<noteq> None] +
        length [r \<leftarrow> rows df. \<not> to_datetime pd (column ''Date'' df) (r ''Date'') \<noteq> None]
          = length (rows df)"
    by (rule sum_length_filter_compl)
  then show ?thesis
    by (simp add: clean_matchlog_rows[OF assms])
qed

theorem date_filter_witness:
  "\<exists>out. clean_matchlog sample_pandas sample_raw = Inr out \<and>
     length (rows sample_raw) = 3 \<and>
     [r \<leftarrow> rows sample_raw.
        to_datetime sample_pandas (column ''Date'' sample_raw) (r ''Date'') = None]
       = [undated_match] \<and>
     length (rows out) = 2 \<and>
     map (\<lambda>r. r ''Opponent'') (rows out) = [Str ''Getafe'', Str ''Sevilla'']"
proof -
  obtain out where o: "clean_matchlog sample_pandas sample_raw = Inr out"
    using sample_clean_Inr by blast
  have c: "''Opponent'' \<in> set text_cols" "''Opponent'' \<in> set (columns sample_raw)"
    by (simp_all add: text_cols_def sample_raw_def sample_columns_def)
  note df = date_filter[OF o, unfolded sample_kept sample_dropped]
  from df have ro: "rows out =
      map (cleaned_row sample_pandas (columns sample_raw) (column ''Date'' sample_raw))
        [drawn_match, unplayed_match]"
    by (rule conjunct1)
  from df have len: "length (rows out) = length (rows sample_raw) - length [undated_match]"
    by (rule conjunct2)
  have "map (\<lambda>r. r ''Opponent'') (rows out) = [drawn_match ''Opponent'', unplayed_match ''Opponent'']"
    by (simp add: ro cleaned_row_text[OF c])
  moreover have "drawn_match ''Opponent'' = Str ''Getafe''" "unplayed_match ''Opponent'' = Str ''Sevilla''"
    by (simp_all add: drawn_match_def unplayed_match_def row_of_def sample_columns_def)
  moreover have "length (rows out) = 2" "length (rows sample_raw) = 3"
    using len by (simp_all add: sample_raw_def)
  ultimately show ?thesis using o sample_dropped by auto
qed

text \<open>
  A date that parses may be dropped all the same: in a column that starts in the ISO format
  the date \<^verbatim>\<open>08/24/2024\<close> is not read, although the library reads it where it stands
  alone. Of the two rows of the frame the cleaner returns the first only.
\<close>

lemma mixed_clean_Inr: "\<exists>out. clean_matchlog sample_pandas mixed_dates = Inr out"
  by (simp add: clean_matchlog_def mixed_dates_def sample_columns_def useful_cols_def
      numeric_cols_def project_def assign_def Let_def)

lemma mixed_column:
  "column ''Date'' mixed_dates = [Str ''2024-08-17'', Str ''08/24/2024'']"
  by (simp add: column_def mixed_dates_def drawn_match_def us_dated_match_def row_of_def
      sample_columns_def)

lemma mixed_kept:
  "[r \<leftarrow> rows mixed_dates. to_datetime sample_pandas (column ''Date'' mixed_dates) (r ''Date'') \<noteq> None]
     = [drawn_match]"
  unfolding mixed_column
  by (simp add: mixed_dates_def sample_pandas_def sample_to_datetime_def iso_dates_def
      us_dates_def drawn_match_def us_dated_match_def row_of_def sample_columns_def)

theorem parseable_date_dropped:
  "\<exists>out. clean_matchlog sample_pandas mixed_dates = Inr out \<and>
     map (\<lambda>r. r ''Date'') (rows mixed_dates) = [Str ''2024-08-17'', Str ''08/24/2024''] \<and>
     to_datetime sample_pandas [Str ''2024-08-17''] (Str ''2024-08-17'') = Some 19952 \<and>
     to_datetime sample_pandas [Str ''08/24/2024''] (Str ''08/24/2024'') = Some 19959 \<and>
     map (\<lambda>r. r ''Date'') (rows out) = [Stamp 19952]"
proof -
  obtain out where o: "clean_matchlog sample_pandas mixed_dates = Inr out"
    using mixed_clean_Inr by blast
  have d: "''Date'' \<in> set (columns mixed_dates)"
    by (simp add: mixed_dates_def sample_columns_def)
  have "rows out =
      [cleaned_row sample_pandas (columns mixed_dates) (column ''Date'' mixed_dates) drawn_match]"
    using clean_matchlog_rows[OF o] unfolding mixed_kept by simp
  then have "map (\<lambda>r. r ''Date'') (rows out) = [Stamp 19952]"
    unfolding mixed_column
    by (simp add: cleaned_row_Date[OF d] to_datetime_coerce_def sample_pandas_def
        sample_to_datetime_def iso_dates_def drawn_match_def row_of_def sample_columns_def)
  moreover have "map (\<lambda>r. r ''Date'') (rows mixed_dates) = [Str ''2024-08-17'', Str ''08/24/2024'']"
    using mixed_column by (simp add: column_def)
  moreover have "to_datetime sample_pandas [Str ''2024-08-17''] (Str ''2024-08-17'') = Some 19952"
    "to_datetime sample_pandas [Str ''08/24/2024''] (Str ''08/24/2024'') = Some 19959"
    by (simp_all add: sample_pandas_def sample_to_datetime_def iso_dates_def us_dates_def)
  ultimately show ?thesis using o by (intro exI[of _ out]) simp
qed

text \<open>Where both goal counts are present, the outcome follows their comparison.\<close>

lemma outcome_when_present:
  assumes "r ''GF'' = Num a" and "r ''GA'' = Num b"
  shows "(outcome r = Str ''Win'') = (a > b)"
    and "(outcome r = Str ''Draw'') = (a = b)"
    and "(outcome r = Str ''Loss'') = (a < b)"
  using assms by (auto simp: outcome_def)

text \<open>
  Claim C1. The claim asks that the outcome be a loss only where the goals for are fewer
  than the goals against, also on rows whose goal counts are missing. On the fixture not
  yet played both counts are missing after the conversion, no comparison holds, and the
  cleaner labels the row a loss.
\<close>

theorem outcome_of_missing_goals:
  "\<exists>out r. clean_matchlog sample_pandas sample_raw = Inr out \<and> r \<in> set (rows out) \<and>
     r ''Opponent'' = Str ''Sevilla'' \<and> isnull (r ''GF'') \<and> isnull (r ''GA'') \<and>
     r ''Outcome'' = Str ''Loss'' \<and> \<not> lt_cell (r ''GF'') (r ''GA'')"
proof -
  obtain out where o: "clean_matchlog sample_pandas sample_raw = Inr out"
    using sample_clean_Inr by blast
  let ?r = "cleaned_row sample_pandas sample_columns (column ''Date'' sample_raw) unplayed_match"
  have m: "?r \<in> set (rows out)"
    by (simp add: sample_rows[OF o])
  have n: "set numeric_cols \<subseteq> set sample_columns"
    by (simp add: numeric_cols_def sample_columns_def)
  have v: "?r ''GF'' = Null" "?r ''GA'' = Null"
    using n by (simp_all add: cleaned_row_numeric numeric_cols_def to_numeric_coerce_def
        sample_pandas_def unplayed_match_def row_of_def sample_columns_def)
  have c: "''Opponent'' \<in> set text_cols" "''Opponent'' \<in> set sample_columns"
    by (simp_all add: text_cols_def sample_columns_def)
  have p: "?r ''Opponent'' = Str ''Sevilla''"
    by (simp add: cleaned_row_text[OF c]) (simp add: unplayed_match_def row_of_def sample_columns_def)
  have l: "?r ''Outcome'' = Str ''Loss''"
    by (simp add: cleaned_row_Outcome outcome_def v)
  from o m v p l show ?thesis
    by (auto simp: isnull_def lt_cell_def)
qed

text \<open>The cleaner raises on a frame that lacks a numeric column or the date column.\<close>

lemma clean_matchlog_needs_columns:
  assumes "c \<in> set numeric_cols \<or> c = ''Date''" and "c \<notin> set (columns df)"
  shows "\<exists>e. clean_matchlog pd df = Inl e"
proof (cases "clean_matchlog pd df")
  case (Inl e)
  then show ?thesis by blast
next
  case (Inr out)
  from clean_matchlog_Inr(1,2)[OF Inr] assms show ?thesis by blast
qed

text \<open>
  Claim C3. The claim asks that the cleaner complete on a frame from which some of the
  fixed columns are absent. The projection leaves the absent columns out, but the loop over
  the numeric columns then reads \<^verbatim>\<open>df['GF']\<close>: on the frame without the score columns
  the cleaner raises \<^verbatim>\<open>KeyError\<close>.
\<close>

theorem clean_fails_without_goals:
  "clean_matchlog sample_pandas no_goals_frame = Inl (KeyError ''GF'')"
  by (simp add: clean_matchlog_def no_goals_frame_def useful_cols_def numeric_cols_def
      project_def)

section \<open>Properties of the downloader\<close>



lemma files_emit: "files (emit es w) = files w"
  by (simp add: emit_def)



lemma safe_get_200:
  "remote (trace w) url = Reply r \<Longrightarrow> status_code r = 200 \<Longrightarrow>
   safe_get self remote url depth w =
     (Some r, emit [Get url, Sleep (Uniform (fst (delay_range self)) (snd (delay_range self)))] w)"
  by (subst safe_get.simps) simp

lemma safe_get_error:
  "remote (trace w) url = Reply r \<Longrightarrow> status_code r \<noteq> 200 \<Longrightarrow> status_code r \<noteq> 429 \<Longrightarrow>
   safe_get self remote url depth w = (None, emit [Get url] w)"
  by (subst safe_get.simps) simp

lemma safe_get_raises:
  "remote (trace w) url = Raises \<Longrightarrow>
   safe_get self remote url depth w = (None, emit [Get url, Sleep (Seconds 10)] w)"
  by (subst safe_get.simps) simp

text \<open>A call leaves the files as they were.\<close>

lemma safe_get_files: "files (snd (safe_get self remote url depth w)) = files w"
proof (induction depth arbitrary: w)
  case 0
  show ?case
    by (subst safe_get.simps) (simp add: files_emit split: reply.splits)
next
  case (Suc depth)
  show ?case
    by (subst safe_get.simps) (simp add: files_emit Suc.IH split: reply.splits)
qed






text \<open>
  Claim C9. A response whose status is neither 200 nor 429 makes \<^verbatim>\<open>safe_get\<close> return
  nothing after that one request; an exception of the request makes it return nothing
  after one wait of 10 seconds. Neither is retried.
\<close>

theorem failure_without_retry:
  "(remote (trace w) url = Reply resp \<and> status_code resp \<noteq> 200 \<and> status_code resp \<noteq> 429 \<longrightarrow>
      safe_get self remote url depth w = (None, emit [Get url] w)) \<and>
   (remote (trace w) url = Raises \<longrightarrow>
      safe_get self remote url depth w = (None, emit [Get url, Sleep (Seconds 10)] w))"
  by (simp add: safe_get_error safe_get_raises)

theorem failure_without_retry_witness:
  "safe_get main_downloader not_found ''https://fbref.com/'' 900 empty_world =
     (None, \<lparr>files = Map.empty, trace = [Get ''https://fbref.com/'']\<rparr>) \<and>
   safe_get main_downloader unreachable ''https://fbref.com/'' 900 empty_world =
     (None, \<lparr>files = Map.empty,
             trace = [Get ''https://fbref.com/'', Sleep (Seconds 10)]\<rparr>)"
proof -
  let ?u = "''https://fbref.com/''"
  let ?r = "\<lparr>status_code = 404, content = ''not found''\<rparr>"
  have a: "not_found (trace empty_world) ?u = Reply ?r \<and> status_code ?r \<noteq> 200 \<and>
           status_code ?r \<noteq> 429"
    by (simp add: not_found_def)
  have b: "unreachable (trace empty_world) ?u = Raises"
    by (simp add: unreachable_def)
  from failure_without_retry[of not_found empty_world ?u ?r main_downloader 900] a
  have "safe_get main_downloader not_found ?u 900 empty_world = (None, emit [Get ?u] empty_world)"
    by blast
  moreover
  from failure_without_retry[of unreachable empty_world ?u ?r main_downloader 900] b
  have "safe_get main_downloader unreachable ?u 900 empty_world =
          (None, emit [Get ?u, Sleep (Seconds 10)] empty_world)"
    by blast
  ultimately show ?thesis
    by (simp add: emit_def empty_world_def)
qed

lemma file_path_qarabag: "file_path ''Qarabag-FK'' = ''data/qarabag-fk_matchlogs.csv''"
  by (simp add: file_path_def lower_char_def)

text \<open>
  Claim C2. If the cache file of a team exists, \<^verbatim>\<open>download_matchlogs\<close> returns what
  \<^verbatim>\<open>pd.read_csv\<close> reads from it (nothing, if the file cannot be read) and leaves the world
  as it was: no request is sent, no file is written. The result does not depend on the
  seasons asked for, nor on the remote site, and a second run from the resulting world,
  which is the same world, returns the same.
\<close>

theorem cache_hit:
  assumes "files w (file_path team_name) = Some cached"
  shows "download_matchlogs self pd remote depth team_name team_id seasons w =
           (Inr (read_csv pd cached), w)"
  using assms by (simp add: download_matchlogs_def)

theorem cache_hit_witness:
  "download_matchlogs main_downloader sample_pandas unreachable 900 ''Qarabag-FK'' ''44b65410''
     [''2025-2026''] cached_world = (Inr (Some sample_raw), cached_world) \<and>
   download_matchlogs main_downloader sample_pandas busy_once 900 ''Qarabag-FK'' ''44b65410''
     [''2023-2024'', ''2024-2025''] cached_world = (Inr (Some sample_raw), cached_world) \<and>
   trace cached_world = []"
proof -
  have f: "files cached_world (file_path ''Qarabag-FK'') = Some sample_csv"
    by (simp add: cached_world_def file_path_qarabag)
  have r: "read_csv sample_pandas sample_csv = Some sample_raw"
    by (simp add: sample_pandas_def)
  show ?thesis
    using cache_hit[OF f, of main_downloader sample_pandas unreachable 900 "''44b65410''"
        "[''2025-2026'']"]
      cache_hit[OF f, of main_downloader sample_pandas busy_once 900 "''44b65410''"
        "[''2023-2024'', ''2024-2025'']"]
    by (simp add: r) (simp add: cached_world_def)
qed

text \<open>The loop over the seasons writes no file.\<close>

lemma fetch_seasons_files:
  "fetch_seasons self pd remote depth team_name team_id seasons all_logs w = (logs, w') \<Longrightarrow>
   files w' = files w"
proof (induction seasons arbitrary: all_logs w)
  case Nil
  then show ?case by simp
next
  case (Cons season seasons)
  obtain res w1 where
    g: "safe_get self remote (season_url team_id season team_name) depth w = (res, w1)"
    by (cases "safe_get self remote (season_url team_id season team_name) depth w")
  from safe_get_files[of self remote "season_url team_id season team_name" depth w] g
  have f: "files w1 = files w" by simp
  from Cons.prems g have "\<exists>logs1.
    fetch_seasons self pd remote depth team_name team_id seasons logs1 w1 = (logs, w')"
    by (auto split: option.splits list.splits)
  then obtain logs1 where
    "fetch_seasons self pd remote depth team_name team_id seasons logs1 w1 = (logs, w')" ..
  from Cons.IH[OF this] f show ?case by simp
qed

text \<open>
  If every season gets an answer that gives no table, whatever was asked before, the loop
  over the seasons has collected nothing.
\<close>

lemma fetch_seasons_no_table:
  assumes "\<forall>season\<in>set seasons. \<forall>h. no_table pd (remote h (season_url team_id season team_name))"
  shows "\<exists>w'. fetch_seasons self pd remote depth team_name team_id seasons all_logs w =
           (all_logs, w')"
  using assms
proof (induction seasons arbitrary: w)
  case Nil
  then show ?case by simp
next
  case (Cons season seasons)
  let ?u = "season_url team_id season team_name"
  from Cons.prems have nt: "no_table pd (remote (trace w) ?u)" by simp
  from Cons.prems have
    rest: "\<And>w1. \<exists>w'. fetch_seasons self pd remote depth team_name team_id seasons all_logs w1 =
             (all_logs, w')"
    using Cons.IH by simp
  show ?case
  proof (cases "remote (trace w) ?u")
    case Raises
    then show ?thesis
      using rest by (simp add: safe_get_raises)
  next
    case (Reply resp)
    show ?thesis
    proof (cases "status_code resp = 200")
      case True
      with nt Reply have "read_html pd (content resp) = None \<or> read_html pd (content resp) = Some []"
        by (auto simp: no_table_def split: option.splits)
      with True Reply show ?thesis
        using rest by (auto simp: safe_get_200[of remote w ?u resp])
    next
      case False
      moreover from nt Reply have "status_code resp \<noteq> 429"
        by (simp add: no_table_def)
      ultimately show ?thesis
        using Reply rest by (simp add: safe_get_error[of remote w ?u resp])
    qed
  qed
qed

lemma safe_get_not_found:
  "safe_get self not_found url depth w = (None, emit [Get url] w)"
  by (subst safe_get.simps) (simp add: not_found_def)

text \<open>
  Claim C10. Let no cache file exist for the team. If the loop over the seasons ends
  without a single table, \<^verbatim>\<open>download_matchlogs\<close> returns nothing and the files are
  what they were before the call: no cache file is written. That is so, and the call
  returns, whenever every requested season fails or gives no table.
\<close>

theorem no_data_no_cache:
  assumes "files w (file_path team_name) = None"
  shows "(fetch_seasons self pd remote depth team_name team_id seasons [] w = ([], w') \<longrightarrow>
            download_matchlogs self pd remote depth team_name team_id seasons w = (Inr None, w') \<and>
            files w' = files w) \<and>
         ((\<forall>season\<in>set seasons. \<forall>h.
              no_table pd (remote h (season_url team_id season team_name))) \<longrightarrow>
            (\<exists>w1. download_matchlogs self pd remote depth team_name team_id seasons w =
                     (Inr None, w1) \<and> files w1 = files w))"
proof (intro conjI impI)
  assume f: "fetch_seasons self pd remote depth team_name team_id seasons [] w = ([], w')"
  with assms show "download_matchlogs self pd remote depth team_name team_id seasons w =
      (Inr None, w')"
    by (simp add: download_matchlogs_def)
  from fetch_seasons_files[OF f] show "files w' = files w" .
next
  assume "\<forall>season\<in>set seasons. \<forall>h.
            no_table pd (remote h (season_url team_id season team_name))"
  from fetch_seasons_no_table[OF this, of self depth "[]" w] obtain w1 where
    f: "fetch_seasons self pd remote depth team_name team_id seasons [] w = ([], w1)"
    by blast
  with assms have "download_matchlogs self pd remote depth team_name team_id seasons w =
      (Inr None, w1)"
    by (simp add: download_matchlogs_def)
  with fetch_seasons_files[OF f] show "\<exists>w1.
      download_matchlogs self pd remote depth team_name team_id seasons w = (Inr None, w1) \<and>
      files w1 = files w"
    by blast
qed

theorem no_data_no_cache_witness:
  "\<exists>w'. fetch_seasons main_downloader sample_pandas not_found 900 ''Qarabag-FK'' ''44b65410''
           [''2023-2024'', ''2024-2025''] [] empty_world = ([], w') \<and>
         (\<forall>season\<in>set [''2023-2024'', ''2024-2025'']. \<forall>h.
            no_table sample_pandas (not_found h (season_url ''44b65410'' season ''Qarabag-FK''))) \<and>
         download_matchlogs main_downloader sample_pandas not_found 900 ''Qarabag-FK'' ''44b65410''
           [''2023-2024'', ''2024-2025''] empty_world = (Inr None, w') \<and>
         files w' = Map.empty \<and> length (trace w') = 2"
proof -
  let ?w = "emit [Get (season_url ''44b65410'' ''2024-2025'' ''Qarabag-FK'')]
             (emit [Get (season_url ''44b65410'' ''2023-2024'' ''Qarabag-FK'')] empty_world)"
  have f: "files empty_world (file_path ''Qarabag-FK'') = None"
    by (simp add: empty_world_def)
  have s: "fetch_seasons main_downloader sample_pandas not_found 900 ''Qarabag-FK'' ''44b65410''
             [''2023-2024'', ''2024-2025''] [] empty_world = ([], ?w)"
    by (simp add: safe_get_not_found)
  have n: "\<forall>season\<in>set [''2023-2024'', ''2024-2025'']. \<forall>h.
      no_table sample_pandas (not_found h (season_url ''44b65410'' season ''Qarabag-FK''))"
    by (simp add: no_table_def not_found_def)
  note t = no_data_no_cache[OF f, of main_downloader sample_pandas not_found 900 "''44b65410''"
      "[''2023-2024'', ''2024-2025'']" ?w]
  from t s have d: "download_matchlogs main_downloader sample_pandas not_found 900 ''Qarabag-FK''
      ''44b65410'' [''2023-2024'', ''2024-2025''] empty_world = (Inr None, ?w)"
    by blast
  from t n have "\<exists>w1. download_matchlogs main_downloader sample_pandas not_found 900 ''Qarabag-FK''
      ''44b65410'' [''2023-2024'', ''2024-2025''] empty_world = (Inr None, w1) \<and>
      files w1 = files empty_world"
    by blast
  with d have "files ?w = files empty_world" by simp
  with s n d show ?thesis
    by (simp add: emit_def empty_world_def)
qed

section \<open>Tags and the merger\<close>

lemma nth_concat_offset:
  "i < length xss \<Longrightarrow> j < length (xss ! i) \<Longrightarrow>
   concat xss ! (sum_list (map length (take i xss)) + j) = xss ! i ! j"
proof (induction xss arbitrary: i)
  case Nil
  then show ?case by simp
next
  case (Cons xs xss)
  show ?case
  proof (cases i)
    case 0
    with Cons.prems show ?thesis by (simp add: nth_append)
  next
    case (Suc i')
    with Cons.prems Cons.IH[of i'] show ?thesis
      by (simp add: nth_append add.assoc)
  qed
qed

lemma length_padded_rows: "length (padded_rows d) = length (rows d)"
  by (simp add: padded_rows_def)

lemma concat_frames_Inr:
  assumes "dfs \<noteq> []"
  shows "\<exists>combined. concat_frames dfs = Inr combined \<and>
           rows combined = concat (map padded_rows dfs)"
  using assms by (simp add: concat_frames_def)

lemma concat_frames_rows:
  "concat_frames dfs = Inr combined \<Longrightarrow> rows combined = concat (map padded_rows dfs)"
  by (auto simp: concat_frames_def split: if_splits)

lemma concat_frames_length:
  "concat_frames dfs = Inr combined \<Longrightarrow>
   length (rows combined) = sum_list (map (\<lambda>d. length (rows d)) dfs)"
  by (simp add: concat_frames_rows length_concat comp_def length_padded_rows)

text \<open>
  The row of the merged frame that comes from row \<open>j\<close> of frame \<open>i\<close>: the cells of the
  columns of that frame, and a missing value elsewhere.
\<close>

lemma concat_frames_nth:
  assumes "concat_frames dfs = Inr combined"
      and "i < length dfs" and "j < length (rows (dfs ! i))"
  shows "rows combined ! (offset dfs i + j) = restrict (columns (dfs ! i)) (rows (dfs ! i) ! j)"
proof -
  have o: "offset dfs i = sum_list (map length (take i (map padded_rows dfs)))"
    by (simp add: offset_def take_map comp_def length_padded_rows)
  from assms(2,3) have
    "concat (map padded_rows dfs) ! (offset dfs i + j) = padded_rows (dfs ! i) ! j"
    unfolding o using nth_concat_offset[of i "map padded_rows dfs" j]
    by (simp add: length_padded_rows)
  with assms(3) show ?thesis
    by (simp add: concat_frames_rows[OF assms(1)] padded_rows_def)
qed

lemma set_union_columns: "set (union_columns acc cs) = set acc \<union> set cs"
  by (induction cs arbitrary: acc) auto

lemma set_foldl_union_columns:
  "set (foldl union_columns acc css) = set acc \<union> \<Union> (set ` set css)"
  by (induction css arbitrary: acc) (auto simp: set_union_columns)

lemma concat_frames_columns:
  "concat_frames dfs = Inr combined \<Longrightarrow> set (columns combined) = \<Union> (set ` columns ` set dfs)"
  by (auto simp: concat_frames_def set_foldl_union_columns split: if_splits)


text \<open>
  Claim C6. Merging a list of frames (not empty: the caller merges only then) returns a
  frame and writes it to the file of the training data. The columns of the merged frame are
  the columns of the frames, so \<^verbatim>\<open>Team\<close> and \<^verbatim>\<open>Season\<close> where the frames have them;
  its number of rows is the sum of the frames' numbers of rows. The rows stand in the order
  of the frames and, within a frame, in the order of its rows: the row that comes from row
  \<open>j\<close> of frame \<open>i\<close> has, in every column of that frame, the cell of that row, unchanged,
  and a missing value in the columns the frame does not have.
\<close>

theorem merge_additive:
  assumes "dfs \<noteq> []"
  shows "\<exists>combined.
     merge_teams pd dfs w =
       Inr (combined,
         w\<lparr>files := (files w)(''data/all_teams_training_data.csv'' \<mapsto> to_csv pd combined)\<rparr>) \<and>
     set (columns combined) = \<Union> (set ` columns ` set dfs) \<and>
     length (rows combined) = sum_list (map (\<lambda>d. length (rows d)) dfs) \<and>
     (\<forall>i<length dfs. \<forall>j<length (rows (dfs ! i)). \<forall>c.
        (rows combined ! (offset dfs i + j)) c =
          (if c \<in> set (columns (dfs ! i)) then (rows (dfs ! i) ! j) c else Null))"
proof -
  from concat_frames_Inr[OF assms] obtain combined where
    c: "concat_frames dfs = Inr combined"
    by blast
  have nth: "(rows combined ! (offset dfs i + j)) c =
      (if c \<in> set (columns (dfs ! i)) then (rows (dfs ! i) ! j) c else Null)"
    if "i < length dfs" "j < length (rows (dfs ! i))" for i j c
    by (simp add: concat_frames_nth[OF c that] restrict_def)
  from c have "merge_teams pd dfs w = Inr (combined,
      w\<lparr>files := (files w)(''data/all_teams_training_data.csv'' \<mapsto> to_csv pd combined)\<rparr>)"
    by (simp add: merge_teams_def)
  with concat_frames_columns[OF c] concat_frames_length[OF c] nth show ?thesis by blast
qed

text \<open>On the empty list \<^verbatim>\<open>pd.concat\<close> raises, and so does the merger.\<close>

lemma merge_teams_empty: "merge_teams pd [] w = Inl ValueError"
  by (simp add: merge_teams_def concat_frames_def)

text \<open>The columns of a cleaned frame.\<close>

lemma clean_matchlog_columns:
  assumes "clean_matchlog pd df = Inr out"
  shows "set (columns out) =
     {c \<in> set useful_cols. c \<in> set (columns df)} \<union> {''GoalDiff'', ''xGDiff'', ''Outcome''}"
proof -
  let ?p = "project [c \<leftarrow> useful_cols. c \<in> set (columns df)] df"
  from assms obtain d where d: "coerce_numeric pd numeric_cols ?p = Inr d"
    by (auto simp: clean_matchlog_def Let_def split: sum.splits)
  note cn = coerce_numeric_Inr[OF d]
  let ?d3 = "assign ''Outcome'' outcome
              (assign ''xGDiff'' (\<lambda>r. sub_cell pd (r ''xG'') (r ''xGA''))
                (assign ''GoalDiff'' (\<lambda>r. sub_cell pd (r ''GF'') (r ''GA'')) d))"
  from assms d have
    "out = dropna ''Date''
       (assign ''Date'' (\<lambda>r. to_datetime_coerce pd (column ''Date'' ?d3) (r ''Date'')) ?d3)"
    by (auto simp: clean_matchlog_def Let_def split: if_splits)
  then have "set (columns out) = insert ''Date'' (set (columns ?d3))"
    by (simp add: dropna_def columns_assign)
  moreover from clean_matchlog_Inr(2)[OF assms] have "''Date'' \<in> set (columns ?p)"
    by (simp add: project_def useful_cols_def)
  ultimately show ?thesis
    using cn by (auto simp: columns_assign project_def)
qed

lemma sample_team:
  "cleaned_row sample_pandas sample_columns dates drawn_match ''Team'' = Str ''Athletic-Club-Bilbao''"
proof -
  have c: "''Team'' \<in> set text_cols" "''Team'' \<in> set sample_columns"
    by (simp_all add: text_cols_def sample_columns_def)
  show ?thesis
    by (simp add: cleaned_row_text[OF c]) (simp add: drawn_match_def row_of_def sample_columns_def)
qed

theorem merge_additive_witness:
  "\<exists>out combined w'. clean_matchlog sample_pandas sample_raw = Inr out \<and>
     merge_teams sample_pandas [out, out] empty_world = Inr (combined, w') \<and>
     files w' = [''data/all_teams_training_data.csv'' \<mapsto> to_csv sample_pandas combined] \<and>
     ''Team'' \<in> set (columns combined) \<and>
     length (rows out) = 2 \<and> length (rows combined) = 4 \<and>
     (rows combined ! 2) ''Team'' = Str ''Athletic-Club-Bilbao''"
proof -
  obtain out where o: "clean_matchlog sample_pandas sample_raw = Inr out"
    using sample_clean_Inr by blast
  note r = sample_rows[OF o]
  have t: "''Team'' \<in> set (columns out)"
    by (simp add: clean_matchlog_columns[OF o] useful_cols_def sample_raw_def sample_columns_def)
  have ne: "[out, out] \<noteq> []" by simp
  let ?w = "\<lambda>combined. empty_world\<lparr>files := (files empty_world)
      (''data/all_teams_training_data.csv'' \<mapsto> to_csv sample_pandas combined)\<rparr>"
  from merge_additive[OF ne, of sample_pandas empty_world] obtain combined where
    m: "merge_teams sample_pandas [out, out] empty_world = Inr (combined, ?w combined)"
    and cs: "set (columns combined) = \<Union> (set ` columns ` set [out, out])"
    and l: "length (rows combined) = sum_list (map (\<lambda>d. length (rows d)) [out, out])"
    and n: "\<forall>i<length [out, out]. \<forall>j<length (rows ([out, out] ! i)). \<forall>c.
          (rows combined ! (offset [out, out] i + j)) c =
            (if c \<in> set (columns ([out, out] ! i)) then (rows ([out, out] ! i) ! j) c else Null)"
    by blast
  from n[rule_format, of 1 0 "''Team''"] t
  have "(rows combined ! 2) ''Team'' = (rows out ! 0) ''Team''"
    by (simp add: offset_def r numeral_2_eq_2)
  then have a: "(rows combined ! 2) ''Team'' = Str ''Athletic-Club-Bilbao''"
    by (simp add: r sample_team)
  from cs t have b: "''Team'' \<in> set (columns combined)" by simp
  from l have c: "length (rows out) = 2" "length (rows combined) = 4"
    by (simp_all add: r)
  have f: "files (?w combined) =
      [''data/all_teams_training_data.csv'' \<mapsto> to_csv sample_pandas combined]"
    by (simp add: empty_world_def)
  from o m f b c a show ?thesis by blast
qed


















end
